theory Spec2Isabelle
  imports Main "HOL-Library.AList"
begin

section \<open>The Search/Edit view of the clinic record keeper\<close>

text \<open>
  A shallow embedding of the component \<^verbatim>\<open>SearchPatient\<close> of
  \<^verbatim>\<open>src/pages/SearchPatient.tsx\<close>: its React state, the handlers
  \<^verbatim>\<open>handleSearch\<close>, \<^verbatim>\<open>toggleEditMode\<close>, \<^verbatim>\<open>handleInputChange\<close> and
  \<^verbatim>\<open>handleUpdatePatient\<close>, and the callback it registers with \<^verbatim>\<open>onSnapshot\<close>.

  A handler is a closure of the render that created it: it \<^emph>\<open>reads\<close> the state values of
  that render and \<^emph>\<open>writes\<close> through the state setters. The model keeps the two apart: a
  handler takes the captured values as a \<open>closure\<close> and the current \<open>world\<close>, and
  returns the world after the call. Everything the handlers do to their collaborators
  (toasts, store calls, listener registration and release) is appended to the world's \<open>log\<close>,
  in the order of the calls.

  Strings are lists of 8-bit code units (the JavaScript strings whose code units are below
  256).
\<close>

subsection \<open>Data\<close>

text \<open>\<^verbatim>\<open>Omit<Patient, "id">\<close>: what a document of the collection holds.\<close>

record PatientData =
  name :: string
  age :: string
  bloodPressure :: string
  disease :: string
  prescription :: string
  createdAt :: string
  doctorId :: string
  lastVisitDate :: string

text \<open>
  \<^verbatim>\<open>type Patient\<close>: the document id with the document's fields;
  \<^verbatim>\<open>{ id: foundDocId, ...data }\<close> is \<open>\<lparr>id' = foundDocId, data = data\<rparr>\<close>.
\<close>

record Patient =
  id' :: string
  data :: PatientData

text \<open>
  \<^verbatim>\<open>Partial<Patient>\<close>: an object with some of the fields, as the list of its
  properties in insertion order. \<^verbatim>\<open>{ ...o, [k]: v }\<close> is \<open>AList.update k v o\<close>:
  a property that exists keeps its place and takes the new value, a new one goes last.
\<close>

type_synonym PartialPatient = "(string \<times> string) list"

definition spread_data :: "PatientData \<Rightarrow> PartialPatient" where
  "spread_data d =
     [(''name'', name d), (''age'', age d), (''bloodPressure'', bloodPressure d),
      (''disease'', disease d), (''prescription'', prescription d),
      (''createdAt'', createdAt d), (''doctorId'', doctorId d),
      (''lastVisitDate'', lastVisitDate d)]"

definition spread_patient :: "Patient \<Rightarrow> PartialPatient" where
  "spread_patient p = (''id'', id' p) # spread_data (data p)"

record Toast =
  title :: string
  description :: string
  variant :: "string option"

text \<open>The six notifications of the view, as the arguments of its \<^verbatim>\<open>toast\<close> calls.\<close>

definition enter_id_toast :: Toast where
  "enter_id_toast =
     \<lparr>title = ''Error'', description = ''Please enter a patient ID'',
      variant = Some ''destructive''\<rparr>"

definition login_toast :: Toast where
  "login_toast =
     \<lparr>title = ''Error'', description = ''You must be logged in to search for patients'',
      variant = Some ''destructive''\<rparr>"

definition not_found_toast :: Toast where
  "not_found_toast =
     \<lparr>title = ''Not found'', description = ''No patient found with that ID'',
      variant = Some ''destructive''\<rparr>"

definition search_failed_toast :: Toast where
  "search_failed_toast =
     \<lparr>title = ''Error'', description = ''Failed to search for patient'',
      variant = Some ''destructive''\<rparr>"

definition update_ok_toast :: Toast where
  "update_ok_toast =
     \<lparr>title = ''Success'', description = ''Patient information updated successfully!'',
      variant = None\<rparr>"

definition update_failed_toast :: Toast where
  "update_failed_toast =
     \<lparr>title = ''Error'', description = ''Failed to update patient information'',
      variant = Some ''destructive''\<rparr>"

text \<open>What the view asks of its collaborators, in the order it asks.\<close>

datatype effect =
    ToastE Toast
  | GetDocs string string        \<comment> \<open>the query: \<^verbatim>\<open>doctorId ==\<close> first, \<^verbatim>\<open>__name__ ==\<close> second\<close>
  | OnSnapshot nat string        \<comment> \<open>a listener registered: its handle, the document id\<close>
  | Unsubscribe nat              \<comment> \<open>the unsubscribe function of a handle called\<close>
  | UpdateDoc string PartialPatient
  | ConsoleError string

text \<open>
  The callback given to \<^verbatim>\<open>onSnapshot\<close> is a closure of the \<^verbatim>\<open>handleSearch\<close> call
  that made it: it holds that call's \<^verbatim>\<open>foundDocId\<close> and that call's \<^verbatim>\<open>editMode\<close>,
  and its setters are those of the mounted view that made the call (\<open>l_mount\<close> counts
  the mounts).
\<close>

record listener =
  foundDocId :: string
  l_editMode :: bool
  l_mount :: nat

text \<open>The values of one render, as a handler created by that render sees them.\<close>

record closure =
  c_patientId :: string
  c_currentUser :: "string option"
  c_patient :: "Patient option"
  c_editMode :: bool
  c_updateData :: PartialPatient
  c_unsubscribeSnapshot :: "nat option"

text \<open>
  The React state of the view (\<open>patientId\<close> to \<open>unsubscribeSnapshot\<close>), the signed-in
  doctor's uid, the \<^verbatim>\<open>patients\<close> collection, the listeners that are live at the store
  (an unsubscribe function is known by the number of its listener), and a
  \<^verbatim>\<open>handleSearch\<close> call suspended at its \<^verbatim>\<open>await\<close>: its closure and the two values
  of its query. The store, its listeners and the log outlive the view; \<open>mount\<close> counts
  how often the view has been mounted, and \<open>first\<close> is the closure of the first render of
  the present mount, which is the closure of the mount effect and of its cleanup
  (\<^verbatim>\<open>useEffect(..., [])\<close>).
\<close>

record world =
  patientId :: string
  isLoading :: bool
  patient :: "Patient option"
  editMode :: bool
  updateData :: PartialPatient
  unsubscribeSnapshot :: "nat option"
  currentUser :: "string option"
  store :: "(string \<times> PatientData) list"
  listeners :: "(nat \<times> listener) list"
  fresh :: nat
  log :: "effect list"
  pending :: "(closure \<times> string \<times> string) option"
  mount :: nat
  first :: closure

definition render :: "world \<Rightarrow> closure" where
  "render w =
     \<lparr>c_patientId = patientId w, c_currentUser = currentUser w, c_patient = patient w,
      c_editMode = editMode w, c_updateData = updateData w,
      c_unsubscribeSnapshot = unsubscribeSnapshot w\<rparr>"

subsection \<open>Collaborators\<close>

definition emit :: "effect \<Rightarrow> world \<Rightarrow> world" where
  "emit e w = w\<lparr>log := log w @ [e]\<rparr>"

definition toast :: "Toast \<Rightarrow> world \<Rightarrow> world" where
  "toast t w = emit (ToastE t) w"

text \<open>
  \<^verbatim>\<open>String.prototype.trim\<close>: white space and line terminators are taken off both ends.
  Below 256 these are TAB, LF, VT, FF, CR, SPACE and NBSP.
\<close>

definition isWhiteSpace :: "char \<Rightarrow> bool" where
  "isWhiteSpace ch = (of_char ch \<in> {9, 10, 11, 12, 13, 32, 160 :: nat})"

definition trim :: "string \<Rightarrow> string" where
  "trim s = rev (dropWhile isWhiteSpace (rev (dropWhile isWhiteSpace s)))"

text \<open>
  \<^verbatim>\<open>getDocs(query(patientsRef, where("doctorId","==",uid), where("__name__","==",pid)))\<close>:
  the documents that pass both filters, or a rejected promise (\<open>None\<close>) when the store
  does not answer the query (\<open>ok\<close> is false: the store cannot be reached, or it refuses
  the request).
\<close>

definition getDocs ::
  "bool \<Rightarrow> (string \<times> PatientData) list \<Rightarrow> string \<Rightarrow> string \<Rightarrow> (string \<times> PatientData) list option"
where
  "getDocs ok docs uid pid =
     (if ok then Some (filter (\<lambda>d. doctorId (snd d) = uid \<and> fst d = pid) docs) else None)"

text \<open>
  \<^verbatim>\<open>updateDoc(ref, fields)\<close> overwrites the named fields of an existing document
  and is rejected when the store does not take the write (\<open>ok\<close> is false) or the
  document does not exist. The stored document keeps the fields of \<open>PatientData\<close>; the
  write as issued is in the log.
\<close>

definition field :: "PartialPatient \<Rightarrow> string \<Rightarrow> string \<Rightarrow> string" where
  "field f k old = (case map_of f k of Some v \<Rightarrow> v | None \<Rightarrow> old)"

definition apply_fields :: "PartialPatient \<Rightarrow> PatientData \<Rightarrow> PatientData" where
  "apply_fields f d =
     \<lparr>name = field f ''name'' (name d), age = field f ''age'' (age d),
      bloodPressure = field f ''bloodPressure'' (bloodPressure d),
      disease = field f ''disease'' (disease d),
      prescription = field f ''prescription'' (prescription d),
      createdAt = field f ''createdAt'' (createdAt d),
      doctorId = field f ''doctorId'' (doctorId d),
      lastVisitDate = field f ''lastVisitDate'' (lastVisitDate d)\<rparr>"

definition updateDoc ::
  "bool \<Rightarrow> (string \<times> PatientData) list \<Rightarrow> string \<Rightarrow> PartialPatient \<Rightarrow> (string \<times> PatientData) list option"
where
  "updateDoc ok docs k f =
     (if ok then
        (case map_of docs k of
           None \<Rightarrow> None
         | Some d \<Rightarrow> Some (AList.update k (apply_fields f d) docs))
      else None)"

text \<open>Calling the unsubscribe function of a handle; a second call does nothing more.\<close>

definition unsubscribe :: "nat \<Rightarrow> world \<Rightarrow> world" where
  "unsubscribe h w = (emit (Unsubscribe h) w)\<lparr>listeners := AList.delete h (listeners w)\<rparr>"

text \<open>\<^verbatim>\<open>if (unsubscribeSnapshot) unsubscribeSnapshot();\<close> on the captured value.\<close>

definition unsubscribe_old :: "closure \<Rightarrow> world \<Rightarrow> world" where
  "unsubscribe_old c w =
     (case c_unsubscribeSnapshot c of None \<Rightarrow> w | Some h \<Rightarrow> unsubscribe h w)"

text \<open>\<^verbatim>\<open>onSnapshot(doc(db, "patients", foundDocId), callback)\<close>: a new live listener.\<close>

definition onSnapshot :: "listener \<Rightarrow> world \<Rightarrow> nat \<times> world" where
  "onSnapshot l w =
     (fresh w,
      (emit (OnSnapshot (fresh w) (foundDocId l)) w)
        \<lparr>listeners := listeners w @ [(fresh w, l)], fresh := Suc (fresh w)\<rparr>)"

subsection \<open>The handlers\<close>

text \<open>
  The callback of a listener, called with a snapshot of its document (\<open>None\<close> when the
  document does not exist). Its \<^verbatim>\<open>editMode\<close> is the captured one.
\<close>

definition snapshot_callback :: "listener \<Rightarrow> PatientData option \<Rightarrow> world \<Rightarrow> world" where
  "snapshot_callback l snapshot w =
     (case snapshot of
        Some d \<Rightarrow>
          (let w1 = w\<lparr>patient := Some \<lparr>id' = foundDocId l, data = d\<rparr>\<rparr>
           in if \<not> l_editMode l then w1\<lparr>updateData := spread_data d\<rparr> else w1)
      | None \<Rightarrow> w\<lparr>patient := None\<rparr>)"

text \<open>
  \<^verbatim>\<open>query(patientsRef, ..., where("__name__", "==", patientId))\<close> throws when the value
  is not a plain document id: the empty string, or a string with a \<open>/\<close> in it.
\<close>

definition query_throws :: "string \<Rightarrow> bool" where
  "query_throws pid = (pid = [] \<or> CHR ''/'' \<in> set pid)"

text \<open>
  \<^verbatim>\<open>handleSearch\<close> up to its \<^verbatim>\<open>await getDocs(q)\<close>: \<open>Inl\<close> when the call has
  returned, \<open>Inr\<close> when it is suspended with the query \<open>(uid, patientId)\<close> issued. The
  query is built inside the \<^verbatim>\<open>try\<close>: when \<^verbatim>\<open>query\<close> throws, no query is issued and
  the call ends through the \<^verbatim>\<open>catch\<close> and the \<^verbatim>\<open>finally\<close>.
\<close>

definition handleSearch_start :: "closure \<Rightarrow> world \<Rightarrow> world + (string \<times> string) \<times> world" where
  "handleSearch_start c w =
     (if trim (c_patientId c) = [] then
        Inl (toast enter_id_toast w)
      else
        (case c_currentUser c of
           None \<Rightarrow>
             Inl (toast login_toast w)
         | Some uid \<Rightarrow>
             (let w1 = w\<lparr>isLoading := True\<rparr>
              in if query_throws (c_patientId c) then
                   Inl ((emit (ConsoleError ''Error searching for patient:'')
                           (toast search_failed_toast w1))\<lparr>isLoading := False\<rparr>)
                 else Inr ((uid, c_patientId c), emit (GetDocs uid (c_patientId c)) w1))))"

text \<open>
  \<^verbatim>\<open>handleSearch\<close> from the point where \<^verbatim>\<open>getDocs\<close> settles, with what it settled
  to: the rest of the \<^verbatim>\<open>try\<close> block, the \<^verbatim>\<open>catch\<close> and the \<^verbatim>\<open>finally\<close>.
\<close>

definition handleSearch_resume ::
  "closure \<Rightarrow> (string \<times> PatientData) list option \<Rightarrow> world \<Rightarrow> world"
where
  "handleSearch_resume c querySnapshot w =
     (let w' =
        (case querySnapshot of
           None \<Rightarrow>
             emit (ConsoleError ''Error searching for patient:'')
               (toast search_failed_toast w)
         | Some [] \<Rightarrow>
             unsubscribe_old c
               ((toast not_found_toast w)\<lparr>patient := None\<rparr>)
         | Some (docSnap # _) \<Rightarrow>
             (let w1 = unsubscribe_old c w;
                  (unsub, w2) =
                    onSnapshot \<lparr>foundDocId = fst docSnap, l_editMode = c_editMode c,
                                l_mount = mount w1\<rparr> w1
              in w2\<lparr>unsubscribeSnapshot := Some unsub\<rparr>))
      in w'\<lparr>isLoading := False\<rparr>)"

text \<open>A whole call of \<^verbatim>\<open>handleSearch\<close> with nothing else happening during the await.\<close>

definition handleSearch :: "closure \<Rightarrow> bool \<Rightarrow> world \<Rightarrow> world" where
  "handleSearch c ok w =
     (case handleSearch_start c w of
        Inl w' \<Rightarrow> w'
      | Inr ((uid, pid), w') \<Rightarrow> handleSearch_resume c (getDocs ok (store w') uid pid) w')"

definition toggleEditMode :: "closure \<Rightarrow> world \<Rightarrow> world" where
  "toggleEditMode c w =
     (let w1 = w\<lparr>editMode := \<not> editMode w\<rparr>
      in case c_patient c of
           Some p \<Rightarrow> if c_editMode c then w1\<lparr>updateData := spread_patient p\<rparr> else w1
         | None \<Rightarrow> w1)"

definition handleInputChange :: "string \<Rightarrow> string \<Rightarrow> world \<Rightarrow> world" where
  "handleInputChange k v w = w\<lparr>updateData := AList.update k v (updateData w)\<rparr>"

text \<open>
  \<^verbatim>\<open>handleUpdatePatient\<close>; \<open>now\<close> is \<^verbatim>\<open>new Date().toISOString()\<close> at the call,
  \<open>ok\<close> whether the store can be reached.
\<close>

definition handleUpdatePatient :: "closure \<Rightarrow> bool \<Rightarrow> string \<Rightarrow> world \<Rightarrow> world" where
  "handleUpdatePatient c ok now w =
     (case c_patient c of
        None \<Rightarrow> w
      | Some p \<Rightarrow>
          (let fields = AList.update ''lastVisitDate'' now (c_updateData c);
               w1 = emit (UpdateDoc (id' p) fields) w
           in case updateDoc ok (store w1) (id' p) fields of
                Some docs \<Rightarrow>
                  (toast update_ok_toast (w1\<lparr>store := docs\<rparr>))\<lparr>editMode := False\<rparr>
              | None \<Rightarrow>
                  emit (ConsoleError ''Error updating patient:'')
                    (toast update_failed_toast w1)))"

text \<open>
  The function the mount effect returns,
  \<^verbatim>\<open>() => { if (unsubscribeSnapshot) unsubscribeSnapshot(); }\<close>, run when the view is
  unmounted. It is a closure of the render that ran the effect.
\<close>

definition cleanup :: "closure \<Rightarrow> world \<Rightarrow> world" where
  "cleanup c w = unsubscribe_old c w"

subsection \<open>The view as a machine\<close>

text \<open>
  The first render of a mount sees the initial values of the \<^verbatim>\<open>useState\<close> calls:
  \<open>pid0\<close> is the \<^verbatim>\<open>patientId\<close> of the address (\<^verbatim>\<open>initialPatientId\<close>), and the
  unsubscribe function is \<^verbatim>\<open>null\<close>.
\<close>

definition first_render :: "string \<Rightarrow> string option \<Rightarrow> closure" where
  "first_render pid0 user =
     \<lparr>c_patientId = pid0, c_currentUser = user, c_patient = None, c_editMode = False,
      c_updateData = [], c_unsubscribeSnapshot = None\<rparr>"

text \<open>
  The view mounted for the first time in a session: the state of the first render, no
  listener at the store, nothing logged.
\<close>

definition init :: "string \<Rightarrow> string option \<Rightarrow> (string \<times> PatientData) list \<Rightarrow> world" where
  "init pid0 user docs =
     \<lparr>patientId = pid0, isLoading = False, patient = None, editMode = False,
      updateData = [], unsubscribeSnapshot = None, currentUser = user, store = docs,
      listeners = [], fresh = 0, log = [], pending = None, mount = 0,
      first = first_render pid0 user\<rparr>"

text \<open>
  The view mounted again, at the address of \<open>pid0\<close>: a new instance with the initial
  state. The store, its listeners and the log are what they were.
\<close>

definition mount_view :: "string \<Rightarrow> world \<Rightarrow> world" where
  "mount_view pid0 w =
     w\<lparr>patientId := pid0, isLoading := False, patient := None, editMode := False,
       updateData := [], unsubscribeSnapshot := None, mount := Suc (mount w),
       first := first_render pid0 (currentUser w)\<rparr>"

text \<open>
  What can happen to the mounted view. The search button is disabled while
  \<^verbatim>\<open>isLoading\<close>; the edit button is rendered only with a record, the form only with a
  record in edit mode; a snapshot reaches a listener only while it is live, and carries
  what the collection holds for the listener's document at that moment. The view is
  rendered anew after every change of state, so a user event runs the handler of the
  current state (\<open>render w\<close>), while a suspended search and a registered callback keep
  the closure they were made with. The search on mount
  (\<^verbatim>\<open>if (initialPatientId) handleSearch()\<close>) is \<open>Search\<close> as the first event of
  a mount. \<^verbatim>\<open>handleUpdatePatient\<close> reads nothing of its render after its await, so
  \<open>Submit\<close> runs it in one step. \<open>Remount\<close> is the doctor leaving the view (the sidebar
  links to another page) and opening it again: the cleanup of the mount effect runs with
  the closure of the first render, then a new instance is mounted. A listener of an
  earlier mount that is still live calls the setters of an instance that is gone, which
  changes nothing. Leaving the view while a search is suspended is left out.
\<close>

datatype event =
    SetPatientId string          \<comment> \<open>typing into the identifier input\<close>
  | Search                       \<comment> \<open>\<^verbatim>\<open>handleSearch\<close> up to its await\<close>
  | QueryDone bool               \<comment> \<open>\<^verbatim>\<open>getDocs\<close> settles: resolved or rejected\<close>
  | Toggle
  | InputChange string string
  | Submit bool string           \<comment> \<open>\<^verbatim>\<open>handleUpdatePatient\<close>: store reachable, time\<close>
  | Snapshot nat                 \<comment> \<open>the store calls the callback of a listener\<close>
  | Remote "(string \<times> PatientData) list"   \<comment> \<open>the collection changes\<close>
  | Auth "string option"         \<comment> \<open>sign-in or sign-out\<close>
  | Remount string               \<comment> \<open>unmount, then mount at the address of an identifier\<close>

fun fire :: "event \<Rightarrow> world \<Rightarrow> world option" where
  "fire (SetPatientId s) w = Some (w\<lparr>patientId := s\<rparr>)"
| "fire Search w =
     (if isLoading w then None
      else
        (case handleSearch_start (render w) w of
           Inl w' \<Rightarrow> Some w'
         | Inr (q, w') \<Rightarrow> Some (w'\<lparr>pending := Some (render w, q)\<rparr>)))"
| "fire (QueryDone ok) w =
     (case pending w of
        None \<Rightarrow> None
      | Some (c, uid, pid) \<Rightarrow>
          Some ((handleSearch_resume c (getDocs ok (store w) uid pid) w)\<lparr>pending := None\<rparr>))"
| "fire Toggle w =
     (if patient w = None then None else Some (toggleEditMode (render w) w))"
| "fire (InputChange k v) w =
     (if patient w = None \<or> \<not> editMode w then None else Some (handleInputChange k v w))"
| "fire (Submit ok now) w =
     (if patient w = None \<or> \<not> editMode w then None
      else Some (handleUpdatePatient (render w) ok now w))"
| "fire (Snapshot h) w =
     (case map_of (listeners w) h of
        None \<Rightarrow> None
      | Some l \<Rightarrow>
          (if l_mount l = mount w
           then Some (snapshot_callback l (map_of (store w) (foundDocId l)) w)
           else Some w))"
| "fire (Remote docs) w = Some (w\<lparr>store := docs\<rparr>)"
| "fire (Auth user) w = Some (w\<lparr>currentUser := user\<rparr>)"
| "fire (Remount pid0) w =
     (if pending w = None then Some (mount_view pid0 (cleanup (first w) w)) else None)"

fun is_remount :: "event \<Rightarrow> bool" where
  "is_remount (Remount _) = True"
| "is_remount _ = False"

fun run :: "event list \<Rightarrow> world \<Rightarrow> world option" where
  "run [] w = Some w"
| "run (e # es) w = (case fire e w of None \<Rightarrow> None | Some w' \<Rightarrow> run es w')"

text \<open>The collaborator calls a step has made: what it added to the log.\<close>

definition effects_of :: "world \<Rightarrow> world \<Rightarrow> effect list" where
  "effects_of w w' = drop (length (log w)) (log w')"

fun is_query :: "effect \<Rightarrow> bool" where
  "is_query (GetDocs _ _) = True"
| "is_query _ = False"


text \<open>The calls \<^verbatim>\<open>if (unsubscribeSnapshot) unsubscribeSnapshot();\<close> makes.\<close>

definition release_of :: "closure \<Rightarrow> effect list" where
  "release_of c = (case c_unsubscribeSnapshot c of None \<Rightarrow> [] | Some h \<Rightarrow> [Unsubscribe h])"

text \<open>
  Within the first mount: the listeners that are live are at most the one whose
  unsubscribe function the state holds, handles are never reused, and a suspended search
  holds the unsubscribe function of the state.
\<close>

definition sub_inv :: "world \<Rightarrow> bool" where
  "sub_inv w =
     (fst ` set (listeners w) \<subseteq> set_option (unsubscribeSnapshot w) \<and>
      length (listeners w) \<le> 1 \<and>
      list_all (\<lambda>(h, l). h < fresh w) (listeners w) \<and>
      (case pending w of
         None \<Rightarrow> True
       | Some (c, q) \<Rightarrow> isLoading w \<and> c_unsubscribeSnapshot c = unsubscribeSnapshot w))"

text \<open>A sample document and two versions of a one-document collection.\<close>

definition ex_data :: PatientData where
  "ex_data =
     \<lparr>name = ''A'', age = ''41'', bloodPressure = ''120/80'', disease = ''flu'',
      prescription = ''rest'', createdAt = ''2024-01-01T00:00:00.000Z'', doctorId = ''D1'',
      lastVisitDate = ''2024-01-01T00:00:00.000Z''\<rparr>"

definition ex_docs :: "(string \<times> PatientData) list" where
  "ex_docs = [(''P123'', ex_data)]"

definition ex_docs' :: "(string \<times> PatientData) list" where
  "ex_docs' = [(''P123'', ex_data\<lparr>disease := ''cold''\<rparr>)]"

text \<open>
  Doctor \<open>D1\<close> opens the view at the address of \<open>P123\<close>; the same view once the search
  on mount has found the record; the view of a doctor \<open>D2\<close> at the same address; and a
  view whose identifier is two blanks.
\<close>

definition ex_init :: world where
  "ex_init = init ''P123'' (Some ''D1'') ex_docs"

definition ex_found :: world where
  "ex_found = handleSearch (render ex_init) True ex_init"

definition ex_other :: world where
  "ex_other = init ''P123'' (Some ''D2'') ex_docs"

definition ex_blank :: world where
  "ex_blank = init ''  '' (Some ''D1'') ex_docs"

definition ex_anon :: world where
  "ex_anon = init ''P123'' None ex_docs"

text \<open>
  Doctor \<open>D2\<close> at a view whose identifier is two blanks, the collection holding a
  record of \<open>D1\<close> under that very id; and \<open>D2\<close> at a view whose identifier has a
  \<open>/\<close> in it.
\<close>

definition ex_blank_other :: world where
  "ex_blank_other = init ''  '' (Some ''D2'') [(''  '', ex_data)]"

definition ex_slash :: world where
  "ex_slash = init ''P1/23'' (Some ''D2'') ex_docs"

text \<open>\<open>ex_found\<close> with its record shown.\<close>

definition ex_shown :: world where
  "ex_shown =
     snapshot_callback \<lparr>foundDocId = ''P123'', l_editMode = False, l_mount = 0\<rparr>
       (Some ex_data) ex_found"

text \<open>
  \<open>ex_shown\<close> after the doctor has opened the form, typed a new name and, in a field
  named \<open>lastVisitDate\<close>, a date of their own.
\<close>

definition ex_editing :: world where
  "ex_editing =
     handleInputChange ''lastVisitDate'' ''never''
       (handleInputChange ''name'' ''B'' (toggleEditMode (render ex_shown) ex_shown))"

definition ex_now :: string where
  "ex_now = ''2025-03-01T10:00:00.000Z''"

section \<open>Auxiliary facts\<close>

subsection \<open>Trimming and the query that cannot be built\<close>

lemma dropWhile_all: "(\<forall>x\<in>set (dropWhile P s). P x) \<longleftrightarrow> (\<forall>x\<in>set s. P x)"
proof
  assume a: "\<forall>x\<in>set (dropWhile P s). P x"
  have "dropWhile P s = []"
  proof (rule ccontr)
    assume ne: "dropWhile P s \<noteq> []"
    then have "\<not> P (hd (dropWhile P s))" by (rule hd_dropWhile)
    moreover from ne have "hd (dropWhile P s) \<in> set (dropWhile P s)" by simp
    ultimately show False using a by blast
  qed
  then show "\<forall>x\<in>set s. P x" by (simp add: dropWhile_eq_Nil_conv)
next
  assume "\<forall>x\<in>set s. P x"
  then show "\<forall>x\<in>set (dropWhile P s). P x" by (meson set_dropWhileD)
qed

lemma trim_Nil_iff: "trim s = [] \<longleftrightarrow> (\<forall>ch\<in>set s. isWhiteSpace ch)"
  by (simp add: trim_def dropWhile_all)

lemma query_throws_iff: "trim s \<noteq> [] \<Longrightarrow> query_throws s \<longleftrightarrow> CHR ''/'' \<in> set s"
  by (auto simp: query_throws_def trim_def)

subsection \<open>What a search logs and where it stops\<close>

lemma log_unsubscribe_old: "log (unsubscribe_old c w) = log w @ release_of c"
  by (simp add: unsubscribe_old_def release_of_def unsubscribe_def emit_def split: option.splits)

lemma handleSearch_start_ok:
  assumes "trim (c_patientId c) \<noteq> []" and "c_currentUser c = Some uid"
    and "CHR ''/'' \<notin> set (c_patientId c)"
  shows "handleSearch_start c w =
           Inr ((uid, c_patientId c), emit (GetDocs uid (c_patientId c)) (w\<lparr>isLoading := True\<rparr>))"
  using assms by (simp add: handleSearch_start_def query_throws_iff)

lemma handleSearch_blank:
  assumes "trim (c_patientId c) = []"
  shows "handleSearch c ok w = toast enter_id_toast w"
  using assms by (simp add: handleSearch_def handleSearch_start_def)

lemma handleSearch_no_user:
  assumes "trim (c_patientId c) \<noteq> []" and "c_currentUser c = None"
  shows "handleSearch c ok w = toast login_toast w"
  using assms by (simp add: handleSearch_def handleSearch_start_def)


lemma handleSearch_query:
  assumes "trim (c_patientId c) \<noteq> []" and "c_currentUser c = Some uid"
    and "CHR ''/'' \<notin> set (c_patientId c)"
  shows "handleSearch c ok w =
           handleSearch_resume c (getDocs ok (store w) uid (c_patientId c))
             (emit (GetDocs uid (c_patientId c)) (w\<lparr>isLoading := True\<rparr>))"
  by (simp add: handleSearch_def handleSearch_start_ok [OF assms] emit_def)

lemma log_resume:
  "log (handleSearch_resume c r w) =
     log w @ (case r of
                None \<Rightarrow> [ToastE search_failed_toast, ConsoleError ''Error searching for patient:'']
              | Some [] \<Rightarrow> ToastE not_found_toast # release_of c
              | Some (d # ds) \<Rightarrow> release_of c @ [OnSnapshot (fresh w) (fst d)])"
proof (cases r)
  case None
  then show ?thesis by (simp add: handleSearch_resume_def emit_def toast_def)
next
  case (Some ms)
  show ?thesis
  proof (cases ms)
    case Nil
    with Some show ?thesis
      by (simp add: handleSearch_resume_def emit_def toast_def log_unsubscribe_old)
  next
    case (Cons d ds)
    have f: "fresh (unsubscribe_old c w) = fresh w"
      by (simp add: unsubscribe_old_def unsubscribe_def emit_def split: option.splits)
    from Some Cons show ?thesis
      by (simp add: handleSearch_resume_def onSnapshot_def emit_def log_unsubscribe_old f Let_def)
  qed
qed

lemma handleSearch_log:
  assumes "trim (c_patientId c) \<noteq> []" and "c_currentUser c = Some uid"
    and "CHR ''/'' \<notin> set (c_patientId c)"
  shows "log (handleSearch c ok w) =
           log w @ GetDocs uid (c_patientId c) #
             (case getDocs ok (store w) uid (c_patientId c) of
                None \<Rightarrow> [ToastE search_failed_toast, ConsoleError ''Error searching for patient:'']
              | Some [] \<Rightarrow> ToastE not_found_toast # release_of c
              | Some (d # ds) \<Rightarrow> release_of c @ [OnSnapshot (fresh w) (fst d)])"
  by (simp add: handleSearch_def handleSearch_start_ok [OF assms] log_resume emit_def
      split: option.splits list.splits)

subsection \<open>The search reads the collection through its query only\<close>

lemma getDocs_foreign:
  assumes "list_all (\<lambda>d. fst d = pid \<longrightarrow> doctorId (snd d) \<noteq> uid) docs"
  shows "getDocs True docs uid pid = Some []"
  using assms by (auto simp: getDocs_def filter_empty_conv list_all_iff)

lemma getDocs_absent:
  "getDocs ok (filter (\<lambda>d. fst d \<noteq> pid) docs) uid pid = (if ok then Some [] else None)"
  by (auto simp: getDocs_def filter_empty_conv)

lemma handleSearch_store_irrelevant:
  assumes "getDocs ok docs uid (c_patientId c) = getDocs ok (store w) uid (c_patientId c)"
    and "trim (c_patientId c) \<noteq> []" and "c_currentUser c = Some uid"
    and "CHR ''/'' \<notin> set (c_patientId c)"
  shows "(handleSearch c ok (w\<lparr>store := docs\<rparr>))\<lparr>store := store w\<rparr> = handleSearch c ok w"
  using assms(1)
  by (simp add: handleSearch_query [OF assms(2,3,4)] handleSearch_resume_def toast_def
      emit_def onSnapshot_def Let_def unsubscribe_old_def unsubscribe_def
      split: option.splits list.splits prod.splits)

subsection \<open>What the handlers leave alone\<close>

text \<open>
  Only the resumed search touches the listeners, the held unsubscribe function and the
  handle counter; no handler touches the closure of the mount effect.
\<close>

lemma frame_snapshot_callback:
  "listeners (snapshot_callback l s w) = listeners w"
  "unsubscribeSnapshot (snapshot_callback l s w) = unsubscribeSnapshot w"
  "fresh (snapshot_callback l s w) = fresh w"
  "pending (snapshot_callback l s w) = pending w"
  "isLoading (snapshot_callback l s w) = isLoading w"
  "first (snapshot_callback l s w) = first w"
  by (simp_all add: snapshot_callback_def Let_def split: option.splits)

lemma frame_toggleEditMode:
  "listeners (toggleEditMode c w) = listeners w"
  "unsubscribeSnapshot (toggleEditMode c w) = unsubscribeSnapshot w"
  "fresh (toggleEditMode c w) = fresh w"
  "pending (toggleEditMode c w) = pending w"
  "isLoading (toggleEditMode c w) = isLoading w"
  "first (toggleEditMode c w) = first w"
  by (simp_all add: toggleEditMode_def Let_def split: option.splits)

lemma frame_handleUpdatePatient:
  "listeners (handleUpdatePatient c ok now w) = listeners w"
  "unsubscribeSnapshot (handleUpdatePatient c ok now w) = unsubscribeSnapshot w"
  "fresh (handleUpdatePatient c ok now w) = fresh w"
  "pending (handleUpdatePatient c ok now w) = pending w"
  "isLoading (handleUpdatePatient c ok now w) = isLoading w"
  "first (handleUpdatePatient c ok now w) = first w"
  by (simp_all add: handleUpdatePatient_def Let_def emit_def toast_def split: option.splits)

lemma frame_unsubscribe_old:
  "unsubscribeSnapshot (unsubscribe_old c w) = unsubscribeSnapshot w"
  "fresh (unsubscribe_old c w) = fresh w"
  "pending (unsubscribe_old c w) = pending w"
  "patient (unsubscribe_old c w) = patient w"
  "store (unsubscribe_old c w) = store w"
  "mount (unsubscribe_old c w) = mount w"
  "first (unsubscribe_old c w) = first w"
  by (simp_all add: unsubscribe_old_def unsubscribe_def emit_def split: option.splits)

lemma frame_handleSearch_start:
  "case handleSearch_start c w of Inl w' \<Rightarrow> first w' = first w | Inr (q, w') \<Rightarrow> first w' = first w"
  by (simp add: handleSearch_start_def toast_def emit_def Let_def split: option.splits)

lemma frame_handleSearch_resume: "first (handleSearch_resume c r w) = first w"
  by (simp add: handleSearch_resume_def toast_def emit_def onSnapshot_def Let_def
      frame_unsubscribe_old split: option.splits list.splits)

subsection \<open>The cleanup of the mount effect\<close>

text \<open>
  The closure of the mount effect and of its cleanup is the one of the first render of the
  mount, whose unsubscribe function is \<^verbatim>\<open>null\<close>. So in whatever state the view is
  left, the cleanup releases nothing.
\<close>

lemma first_fire:
  assumes "c_unsubscribeSnapshot (first w) = None" and "fire e w = Some w'"
  shows "c_unsubscribeSnapshot (first w') = None"
proof (cases e)
  case Search
  with assms frame_handleSearch_start [where c = "render w" and w = w] show ?thesis
    by (auto split: if_splits sum.splits prod.splits)
next
  case (QueryDone ok)
  with assms show ?thesis
    by (auto split: option.splits simp: frame_handleSearch_resume)
next
  case (Remount pid0)
  with assms show ?thesis
    by (auto split: if_splits simp: mount_view_def first_render_def)
qed (use assms in \<open>auto split: if_splits option.splits
      simp: frame_toggleEditMode frame_handleUpdatePatient frame_snapshot_callback
        handleInputChange_def\<close>)

lemma first_run:
  assumes "c_unsubscribeSnapshot (first w) = None" and "run es w = Some w'"
  shows "c_unsubscribeSnapshot (first w') = None"
  using assms
proof (induction es arbitrary: w)
  case Nil
  then show ?case by simp
next
  case (Cons e es)
  then show ?case by (auto split: option.splits dest: first_fire)
qed

lemma cleanup_releases_nothing:
  assumes "run es (init pid0 user docs) = Some w"
  shows "cleanup (first w) w = w"
proof -
  have "c_unsubscribeSnapshot (first (init pid0 user docs)) = None"
    by (simp add: init_def first_render_def)
  then have "c_unsubscribeSnapshot (first w) = None"
    using assms by (rule first_run)
  then show ?thesis by (simp add: cleanup_def unsubscribe_old_def)
qed

subsection \<open>The listeners within the first mount\<close>

lemma sub_inv_init: "sub_inv (init pid0 user docs)"
  by (simp add: sub_inv_def init_def)

lemma sub_inv_frame:
  assumes "sub_inv w"
    and "listeners w' = listeners w" and "unsubscribeSnapshot w' = unsubscribeSnapshot w"
    and "fresh w' = fresh w" and "pending w' = pending w" and "isLoading w' = isLoading w"
  shows "sub_inv w'"
  using assms by (auto simp: sub_inv_def split: option.splits)

lemma sub_inv_idle: "sub_inv w \<Longrightarrow> \<not> isLoading w \<Longrightarrow> pending w = None"
  by (auto simp: sub_inv_def split: option.splits)

lemma sub_inv_start:
  assumes "sub_inv w" and "\<not> isLoading w"
  shows "case handleSearch_start (render w) w of
           Inl w' \<Rightarrow> sub_inv w'
         | Inr (q, w') \<Rightarrow> sub_inv (w'\<lparr>pending := Some (render w, q)\<rparr>)"
  using assms sub_inv_idle [OF assms]
  by (simp add: handleSearch_start_def sub_inv_def toast_def emit_def render_def Let_def
      split: option.splits)

lemma listeners_unsubscribe_old:
  assumes "fst ` set (listeners w) \<subseteq> set_option (c_unsubscribeSnapshot c)"
  shows "listeners (unsubscribe_old c w) = []"
proof (cases "c_unsubscribeSnapshot c")
  case None
  with assms show ?thesis by (simp add: unsubscribe_old_def)
next
  case (Some h)
  with assms have "\<forall>x\<in>set (listeners w). fst x = h" by auto
  then have "AList.delete h (listeners w) = []"
    by (auto simp: AList.delete_eq filter_empty_conv)
  with Some show ?thesis by (simp add: unsubscribe_old_def unsubscribe_def emit_def)
qed

lemma resume_listeners:
  assumes "fst ` set (listeners w) \<subseteq> set_option (c_unsubscribeSnapshot c)"
  shows "listeners (handleSearch_resume c r w) =
           (case r of
              None \<Rightarrow> listeners w
            | Some [] \<Rightarrow> []
            | Some (d # ds) \<Rightarrow>
                [(fresh w, \<lparr>foundDocId = fst d, l_editMode = c_editMode c, l_mount = mount w\<rparr>)])"
  using assms
  by (simp add: handleSearch_resume_def toast_def emit_def onSnapshot_def Let_def
      frame_unsubscribe_old listeners_unsubscribe_old
      split: option.splits list.splits)

lemma resume_unsubscribeSnapshot:
  "unsubscribeSnapshot (handleSearch_resume c r w) =
     (case r of
        None \<Rightarrow> unsubscribeSnapshot w
      | Some [] \<Rightarrow> unsubscribeSnapshot w
      | Some (d # ds) \<Rightarrow> Some (fresh w))"
  by (simp add: handleSearch_resume_def toast_def emit_def onSnapshot_def Let_def
      frame_unsubscribe_old split: option.splits list.splits)

lemma resume_fresh:
  "fresh (handleSearch_resume c r w) =
     (case r of
        None \<Rightarrow> fresh w
      | Some [] \<Rightarrow> fresh w
      | Some (d # ds) \<Rightarrow> Suc (fresh w))"
  by (simp add: handleSearch_resume_def toast_def emit_def onSnapshot_def Let_def
      frame_unsubscribe_old split: option.splits list.splits)

lemma sub_inv_resume:
  assumes "sub_inv w" and "pending w = Some (c, q)"
  shows "sub_inv ((handleSearch_resume c r w)\<lparr>pending := None\<rparr>)"
proof -
  from assms have held: "c_unsubscribeSnapshot c = unsubscribeSnapshot w"
    and sub: "fst ` set (listeners w) \<subseteq> set_option (unsubscribeSnapshot w)"
    and len: "length (listeners w) \<le> 1"
    and lt: "list_all (\<lambda>(h, l). h < fresh w) (listeners w)"
    by (simp_all add: sub_inv_def)
  from sub held have sub': "fst ` set (listeners w) \<subseteq> set_option (c_unsubscribeSnapshot c)"
    by simp
  show ?thesis
    using sub len lt
    by (simp add: sub_inv_def resume_listeners [OF sub'] resume_unsubscribeSnapshot resume_fresh
        split: option.splits list.splits)
qed

lemma sub_inv_fire:
  assumes "sub_inv w" and "fire e w = Some w'" and "\<not> is_remount e"
  shows "sub_inv w'"
proof (cases e)
  case (SetPatientId s)
  with assms show ?thesis by (auto intro: sub_inv_frame [OF assms(1)])
next
  case Search
  with assms sub_inv_start [of w] show ?thesis
    by (auto split: if_splits sum.splits prod.splits)
next
  case (QueryDone ok)
  with assms show ?thesis
    by (auto split: option.splits intro: sub_inv_resume)
next
  case Toggle
  with assms show ?thesis
    by (auto split: if_splits intro: sub_inv_frame [OF assms(1)] simp: frame_toggleEditMode)
next
  case (InputChange k v)
  with assms show ?thesis
    by (auto split: if_splits intro: sub_inv_frame [OF assms(1)] simp: handleInputChange_def)
next
  case (Submit ok now)
  with assms show ?thesis
    by (auto split: if_splits intro: sub_inv_frame [OF assms(1)] simp: frame_handleUpdatePatient)
next
  case (Snapshot h)
  with assms show ?thesis
    by (auto split: option.splits if_splits intro: sub_inv_frame [OF assms(1)]
        simp: frame_snapshot_callback)
next
  case (Remote docs)
  with assms show ?thesis by (auto intro: sub_inv_frame [OF assms(1)])
next
  case (Auth user)
  with assms show ?thesis by (auto intro: sub_inv_frame [OF assms(1)])
next
  case (Remount pid0)
  with assms(3) show ?thesis by simp
qed

lemma sub_inv_run:
  assumes "sub_inv w" and "run es w = Some w'" and "\<not> list_ex is_remount es"
  shows "sub_inv w'"
  using assms
proof (induction es arbitrary: w)
  case Nil
  then show ?case by simp
next
  case (Cons e es)
  then show ?case by (auto split: option.splits dest: sub_inv_fire)
qed

lemma sub_inv_reachable:
  "run es (init pid0 user docs) = Some w \<Longrightarrow> \<not> list_ex is_remount es \<Longrightarrow> sub_inv w"
  using sub_inv_run [OF sub_inv_init] .

text \<open>
  As long as the view is not left: when a suspended search resumes with a match, the
  listeners that were live are gone and the new one, bound to the first match, is the only
  one; when it resumes with no match, none is live.
\<close>

lemma one_subscription_within_mount:
  assumes "run es (init pid0 user docs) = Some w" and "\<not> list_ex is_remount es"
    and "pending w = Some (c, uid, pid)"
    and "getDocs True (store w) uid pid = Some (d # ds)"
    and "fire (QueryDone True) w = Some w'"
  shows "listeners w' =
           [(fresh w, \<lparr>foundDocId = fst d, l_editMode = c_editMode c, l_mount = mount w\<rparr>)] \<and>
         unsubscribeSnapshot w' = Some (fresh w) \<and>
         fst d = pid \<and> doctorId (snd d) = uid \<and>
         fst ` set (listeners w) \<inter> fst ` set (listeners w') = {} \<and>
         effects_of w w' = release_of c @ [OnSnapshot (fresh w) (fst d)]"
proof -
  have inv: "sub_inv w" using assms(1,2) by (rule sub_inv_reachable)
  with assms(3) have held: "c_unsubscribeSnapshot c = unsubscribeSnapshot w"
    by (simp add: sub_inv_def)
  from inv held have sub: "fst ` set (listeners w) \<subseteq> set_option (c_unsubscribeSnapshot c)"
    by (simp add: sub_inv_def)
  from inv have lt: "list_all (\<lambda>(h, l). h < fresh w) (listeners w)"
    by (simp add: sub_inv_def)
  have w': "w' = (handleSearch_resume c (Some (d # ds)) w)\<lparr>pending := None\<rparr>"
    using assms(3,4,5) by simp
  have "d \<in> set (filter (\<lambda>d. doctorId (snd d) = uid \<and> fst d = pid) (store w))"
    using assms(4) by (simp add: getDocs_def)
  then have d: "fst d = pid \<and> doctorId (snd d) = uid" by simp
  have l: "listeners w' =
      [(fresh w, \<lparr>foundDocId = fst d, l_editMode = c_editMode c, l_mount = mount w\<rparr>)]"
    by (simp add: w' resume_listeners [OF sub])
  have "fresh w \<notin> fst ` set (listeners w)"
    using lt by (auto simp: list_all_iff)
  then have disj: "fst ` set (listeners w) \<inter> fst ` set (listeners w') = {}"
    by (simp add: l)
  have eff: "effects_of w w' = release_of c @ [OnSnapshot (fresh w) (fst d)]"
    by (simp add: w' effects_of_def log_resume)
  from l d disj eff show ?thesis
    by (simp add: w' resume_unsubscribeSnapshot)
qed

lemma not_found_within_mount:
  assumes "run es (init pid0 user docs) = Some w" and "\<not> list_ex is_remount es"
    and "pending w = Some (c, uid, pid)"
    and "getDocs True (store w) uid pid = Some []"
    and "fire (QueryDone True) w = Some w'"
  shows "effects_of w w' = ToastE not_found_toast # release_of c \<and>
         patient w' = None \<and> listeners w' = [] \<and> \<not> isLoading w'"
proof -
  have inv: "sub_inv w" using assms(1,2) by (rule sub_inv_reachable)
  with assms(3) have held: "c_unsubscribeSnapshot c = unsubscribeSnapshot w"
    by (simp add: sub_inv_def)
  from inv held have sub: "fst ` set (listeners w) \<subseteq> set_option (c_unsubscribeSnapshot c)"
    by (simp add: sub_inv_def)
  have w': "w' = (handleSearch_resume c (Some []) w)\<lparr>pending := None\<rparr>"
    using assms(3,4,5) by simp
  have "patient (handleSearch_resume c (Some []) w) = None"
    by (simp add: handleSearch_resume_def frame_unsubscribe_old toast_def emit_def)
  moreover have "\<not> isLoading (handleSearch_resume c (Some []) w)"
    by (simp add: handleSearch_resume_def)
  ultimately show ?thesis
    by (simp add: w' resume_listeners [OF sub] effects_of_def log_resume)
qed

subsection \<open>Unfolding the samples\<close>

lemmas ex_defs = ex_init_def ex_found_def ex_other_def ex_blank_def ex_anon_def
  ex_blank_other_def ex_slash_def ex_shown_def
  ex_editing_def ex_now_def spread_data_def spread_patient_def ex_docs_def ex_docs'_def ex_data_def init_def first_render_def
  render_def

lemmas run_defs = handleSearch_def handleSearch_start_def handleSearch_resume_def
  query_throws_def trim_def isWhiteSpace_def emit_def toast_def getDocs_def unsubscribe_old_def
  unsubscribe_def onSnapshot_def snapshot_callback_def toggleEditMode_def handleInputChange_def
  handleUpdatePatient_def updateDoc_def apply_fields_def field_def cleanup_def mount_view_def
  effects_of_def Let_def

section \<open>Properties\<close>

text \<open>
  C1, as the code has it. A call of \<^verbatim>\<open>handleSearch\<close> by a signed-in doctor \<open>uid\<close>
  with an identifier that is not blank and has no \<open>/\<close> in it issues exactly one query,
  \<open>GetDocs uid identifier\<close>: owning doctor equal to the acting doctor's uid, document id
  equal to the identifier as typed. The call goes on with the documents of the collection
  that pass both filters: answered, it ends as not found when there is none, and registers
  a listener for the first of them otherwise. When every record with that id belongs to
  another doctor the query has no match, the call ends as it would if no record had that
  id, and (the store answering) that end is the not-found one: the not-found notification,
  the listener of the render released, no record held.
\<close>

theorem handleSearch_scoped_query:
  assumes "trim (c_patientId c) \<noteq> []" and "CHR ''/'' \<notin> set (c_patientId c)"
    and "c_currentUser c = Some uid" and "w' = handleSearch c ok w"
  shows "filter is_query (effects_of w w') = [GetDocs uid (c_patientId c)] \<and>
         w' = handleSearch_resume c
                (if ok then
                   Some (filter (\<lambda>d. doctorId (snd d) = uid \<and> fst d = c_patientId c) (store w))
                 else None)
                (emit (GetDocs uid (c_patientId c)) (w\<lparr>isLoading := True\<rparr>)) \<and>
         (ok \<longrightarrow>
            effects_of w w' =
              GetDocs uid (c_patientId c) #
                (case filter (\<lambda>d. doctorId (snd d) = uid \<and> fst d = c_patientId c) (store w) of
                   [] \<Rightarrow> ToastE not_found_toast # release_of c
                 | d # ds \<Rightarrow> release_of c @ [OnSnapshot (fresh w) (fst d)])) \<and>
         (list_all (\<lambda>d. fst d = c_patientId c \<longrightarrow> doctorId (snd d) \<noteq> uid) (store w) \<longrightarrow>
            getDocs True (store w) uid (c_patientId c) = Some [] \<and>
            w' = (handleSearch c ok
                    (w\<lparr>store := filter (\<lambda>d. fst d \<noteq> c_patientId c) (store w)\<rparr>))
                   \<lparr>store := store w\<rparr> \<and>
            (ok \<longrightarrow>
               effects_of w w' =
                 GetDocs uid (c_patientId c) # ToastE not_found_toast # release_of c \<and>
               patient w' = None))"
proof -
  note q = handleSearch_query [OF assms(1,3,2)]
  note l = handleSearch_log [OF assms(1,3,2)]
  have eff: "effects_of w w' =
      GetDocs uid (c_patientId c) #
        (case getDocs ok (store w) uid (c_patientId c) of
           None \<Rightarrow> [ToastE search_failed_toast, ConsoleError ''Error searching for patient:'']
         | Some [] \<Rightarrow> ToastE not_found_toast # release_of c
         | Some (d # ds) \<Rightarrow> release_of c @ [OnSnapshot (fresh w) (fst d)])"
    using assms(4) by (simp add: effects_of_def l)
  have one: "filter is_query (effects_of w w') = [GetDocs uid (c_patientId c)]"
    by (simp add: eff release_of_def split: option.splits list.splits)
  have res: "w' = handleSearch_resume c
                   (if ok then
                      Some (filter (\<lambda>d. doctorId (snd d) = uid \<and> fst d = c_patientId c) (store w))
                    else None)
                   (emit (GetDocs uid (c_patientId c)) (w\<lparr>isLoading := True\<rparr>))"
    using assms(4) by (simp add: q getDocs_def)
  have answered: "effects_of w w' =
      GetDocs uid (c_patientId c) #
        (case filter (\<lambda>d. doctorId (snd d) = uid \<and> fst d = c_patientId c) (store w) of
           [] \<Rightarrow> ToastE not_found_toast # release_of c
         | d # ds \<Rightarrow> release_of c @ [OnSnapshot (fresh w) (fst d)])" if ok
    using that by (simp add: eff getDocs_def)
  have foreign: "getDocs True (store w) uid (c_patientId c) = Some [] \<and>
      w' = (handleSearch c ok
              (w\<lparr>store := filter (\<lambda>d. fst d \<noteq> c_patientId c) (store w)\<rparr>))\<lparr>store := store w\<rparr> \<and>
      (ok \<longrightarrow> effects_of w w' =
                 GetDocs uid (c_patientId c) # ToastE not_found_toast # release_of c \<and>
               patient w' = None)"
    if f: "list_all (\<lambda>d. fst d = c_patientId c \<longrightarrow> doctorId (snd d) \<noteq> uid) (store w)"
  proof -
    note g = getDocs_foreign [OF f]
    have same: "getDocs ok (filter (\<lambda>d. fst d \<noteq> c_patientId c) (store w)) uid (c_patientId c) =
                getDocs ok (store w) uid (c_patientId c)"
      using g by (simp add: getDocs_absent) (simp add: getDocs_def)
    have "patient w' = None" if ok
      using that g assms(4)
      by (simp add: q handleSearch_resume_def frame_unsubscribe_old toast_def emit_def)
    moreover have "effects_of w w' =
        GetDocs uid (c_patientId c) # ToastE not_found_toast # release_of c" if ok
      using that g by (simp add: eff)
    moreover have "w' = (handleSearch c ok
        (w\<lparr>store := filter (\<lambda>d. fst d \<noteq> c_patientId c) (store w)\<rparr>))\<lparr>store := store w\<rparr>"
      using handleSearch_store_irrelevant [OF same assms(1,3,2)] assms(4) by simp
    ultimately show ?thesis using g by blast
  qed
  from one res answered foreign show ?thesis by blast
qed

theorem handleSearch_scoped_query_witness:
  "trim (c_patientId (render ex_other)) \<noteq> [] \<and>
   CHR ''/'' \<notin> set (c_patientId (render ex_other)) \<and>
   c_currentUser (render ex_other) = Some ''D2'' \<and>
   store ex_other = [(''P123'', ex_data)] \<and> doctorId ex_data = ''D1'' \<and>
   effects_of ex_other (handleSearch (render ex_other) True ex_other) =
     [GetDocs ''D2'' ''P123'', ToastE not_found_toast] \<and>
   patient (handleSearch (render ex_other) True ex_other) = None \<and>
   effects_of ex_init (handleSearch (render ex_init) True ex_init) =
     [GetDocs ''D1'' ''P123'', OnSnapshot 0 ''P123'']"
  using handleSearch_scoped_query [of "render ex_other" "''D2''" _ True ex_other, OF _ _ _ refl]
    handleSearch_scoped_query [of "render ex_init" "''D1''" _ True ex_init, OF _ _ _ refl]
  by (simp add: ex_defs run_defs)

text \<open>
  C1, as worded, speaks of every non-empty identifier. Doctor \<open>D2\<close> searches two blanks,
  an identifier that is not empty, and a record of \<open>D1\<close> has that id: no query is
  issued and the notification is the one asking for an identifier, not the not-found one.
  \<open>D2\<close> searches \<open>P1/23\<close>: building the query throws, no query is issued, and the
  notification is the one of a failed search.
\<close>

theorem handleSearch_no_query_when_blank_or_slash:
  "c_patientId (render ex_blank_other) \<noteq> [] \<and>
   c_currentUser (render ex_blank_other) = Some ''D2'' \<and>
   store ex_blank_other = [(''  '', ex_data)] \<and> doctorId ex_data = ''D1'' \<and>
   effects_of ex_blank_other (handleSearch (render ex_blank_other) True ex_blank_other) =
     [ToastE enter_id_toast] \<and>
   c_patientId (render ex_slash) \<noteq> [] \<and>
   c_currentUser (render ex_slash) = Some ''D2'' \<and>
   effects_of ex_slash (handleSearch (render ex_slash) True ex_slash) =
     [ToastE search_failed_toast, ConsoleError ''Error searching for patient:''] \<and>
   \<not> list_ex is_query
        (effects_of ex_blank_other (handleSearch (render ex_blank_other) True ex_blank_other)) \<and>
   \<not> list_ex is_query (effects_of ex_slash (handleSearch (render ex_slash) True ex_slash))"
  by (simp add: ex_defs run_defs enter_id_toast_def search_failed_toast_def)

text \<open>
  C2. When the identifier is empty or all white space, or no doctor is signed in,
  \<^verbatim>\<open>handleSearch\<close> returns before its await with one destructive notification and
  nothing else: no query is issued, and the record, the draft, the held unsubscribe
  function and the live listeners are what they were.
\<close>

theorem handleSearch_validation:
  assumes "list_all isWhiteSpace (c_patientId c) \<or> c_currentUser c = None"
    and "w' = handleSearch c ok w"
  shows "(\<exists>t. (t = enter_id_toast \<or> t = login_toast) \<and> variant t = Some ''destructive'' \<and>
              w' = w\<lparr>log := log w @ [ToastE t]\<rparr>) \<and>
         handleSearch_start c w = Inl w' \<and>
         \<not> list_ex is_query (effects_of w w') \<and>
         patient w' = patient w \<and> updateData w' = updateData w \<and>
         unsubscribeSnapshot w' = unsubscribeSnapshot w \<and> listeners w' = listeners w"
proof (cases "trim (c_patientId c) = []")
  case True
  with assms(2) have eq: "w' = w\<lparr>log := log w @ [ToastE enter_id_toast]\<rparr>"
    by (simp add: handleSearch_blank toast_def emit_def)
  then have "\<exists>t. (t = enter_id_toast \<or> t = login_toast) \<and> variant t = Some ''destructive'' \<and>
                w' = w\<lparr>log := log w @ [ToastE t]\<rparr>"
    by (intro exI [of _ enter_id_toast]) (simp add: enter_id_toast_def)
  moreover from True eq have "handleSearch_start c w = Inl w'"
    by (simp add: handleSearch_start_def toast_def emit_def)
  ultimately show ?thesis
    using eq by (simp add: effects_of_def)
next
  case False
  with assms(1) have nouser: "c_currentUser c = None"
    by (auto simp: trim_Nil_iff list_all_iff)
  with False assms(2) have eq: "w' = w\<lparr>log := log w @ [ToastE login_toast]\<rparr>"
    by (simp add: handleSearch_no_user toast_def emit_def)
  then have "\<exists>t. (t = enter_id_toast \<or> t = login_toast) \<and> variant t = Some ''destructive'' \<and>
                w' = w\<lparr>log := log w @ [ToastE t]\<rparr>"
    by (intro exI [of _ login_toast]) (simp add: login_toast_def)
  moreover from False nouser eq have "handleSearch_start c w = Inl w'"
    by (simp add: handleSearch_start_def toast_def emit_def)
  ultimately show ?thesis
    using eq by (simp add: effects_of_def)
qed

theorem handleSearch_validation_witness:
  "list_all isWhiteSpace (c_patientId (render ex_blank)) \<and>
   handleSearch (render ex_blank) True ex_blank = ex_blank\<lparr>log := [ToastE enter_id_toast]\<rparr> \<and>
   c_currentUser (render ex_anon) = None \<and>
   handleSearch (render ex_anon) True ex_anon = ex_anon\<lparr>log := [ToastE login_toast]\<rparr>"
  using handleSearch_validation [of "render ex_blank" _ True ex_blank, OF _ refl]
    handleSearch_validation [of "render ex_anon" _ True ex_anon, OF _ refl]
  by (simp add: ex_defs run_defs)

text \<open>
  C3. With a record resolved, \<^verbatim>\<open>handleUpdatePatient\<close> issues one write, to the
  record's document: the properties of the draft with \<open>lastVisitDate\<close> set to the time of
  the call, whatever the draft held under that name. When the store takes the write, the
  stored document carries that time.
\<close>

theorem handleUpdatePatient_write:
  assumes "c_patient c = Some p"
    and "written = AList.update ''lastVisitDate'' now (c_updateData c)"
    and "w' = handleUpdatePatient c ok now w"
  shows "(\<exists>rest. effects_of w w' = UpdateDoc (id' p) written # rest \<and>
                 (\<forall>k f. UpdateDoc k f \<notin> set rest)) \<and>
         map_of written = (map_of (c_updateData c))(''lastVisitDate'' \<mapsto> now) \<and>
         (case updateDoc ok (store w) (id' p) written of
            None \<Rightarrow> store w' = store w
          | Some docs \<Rightarrow> store w' = docs \<and>
              (\<exists>d. map_of docs (id' p) = Some d \<and> lastVisitDate d = now))"
  using assms
  by (auto simp: handleUpdatePatient_def Let_def emit_def toast_def effects_of_def update_conv'
      updateDoc_def apply_fields_def field_def
      split: option.splits)

theorem handleUpdatePatient_write_witness:
  "c_patient (render ex_editing) = Some \<lparr>id' = ''P123'', data = ex_data\<rparr> \<and>
   map_of (c_updateData (render ex_editing)) ''lastVisitDate'' = Some ''never'' \<and>
   effects_of ex_editing (handleUpdatePatient (render ex_editing) True ex_now ex_editing) =
     [UpdateDoc ''P123''
        [(''name'', ''B''), (''age'', ''41''), (''bloodPressure'', ''120/80''),
         (''disease'', ''flu''), (''prescription'', ''rest''),
         (''createdAt'', ''2024-01-01T00:00:00.000Z''), (''doctorId'', ''D1''),
         (''lastVisitDate'', ex_now)],
      ToastE update_ok_toast] \<and>
   store (handleUpdatePatient (render ex_editing) True ex_now ex_editing) =
     [(''P123'', ex_data\<lparr>name := ''B'', lastVisitDate := ex_now\<rparr>)]"
  using handleUpdatePatient_write
    [of "render ex_editing" "\<lparr>id' = ''P123'', data = ex_data\<rparr>" _ ex_now _ True ex_editing,
     OF _ refl refl]
  by (simp add: ex_defs run_defs)

text \<open>
  C4. The view is left and opened again. The cleanup of the mount effect releases nothing,
  so the listener of the first mount is still live at the store when the second mount
  starts with no unsubscribe function held. Its search finds the record, releases nothing
  and registers a second listener: two are live after a successful search, and no
  \<open>Unsubscribe\<close> was ever logged.
\<close>

theorem remount_search_leaves_two_listeners:
  "map_option listeners (run [Search, QueryDone True] ex_init) =
     Some [(0, \<lparr>foundDocId = ''P123'', l_editMode = False, l_mount = 0\<rparr>)] \<and>
   map_option listeners (run [Search, QueryDone True, Remount ''P123''] ex_init) =
     Some [(0, \<lparr>foundDocId = ''P123'', l_editMode = False, l_mount = 0\<rparr>)] \<and>
   map_option unsubscribeSnapshot (run [Search, QueryDone True, Remount ''P123''] ex_init) =
     Some None \<and>
   map_option listeners
     (run [Search, QueryDone True, Remount ''P123'', Search, QueryDone True] ex_init) =
     Some [(0, \<lparr>foundDocId = ''P123'', l_editMode = False, l_mount = 0\<rparr>),
           (1, \<lparr>foundDocId = ''P123'', l_editMode = False, l_mount = 1\<rparr>)] \<and>
   map_option log
     (run [Search, QueryDone True, Remount ''P123'', Search, QueryDone True] ex_init) =
     Some [GetDocs ''D1'' ''P123'', OnSnapshot 0 ''P123'',
           GetDocs ''D1'' ''P123'', OnSnapshot 1 ''P123'']"
  by (simp add: ex_defs run_defs)




text \<open>
  What the callback does with a snapshot of an existing document: the held record is
  replaced; the draft is replaced when the captured \<^verbatim>\<open>editMode\<close> is off, whatever the
  edit mode of the view.
\<close>

lemma snapshot_callback_Some:
  "patient (snapshot_callback l (Some d) w) = Some \<lparr>id' = foundDocId l, data = d\<rparr>"
  "updateData (snapshot_callback l (Some d) w) =
     (if l_editMode l then updateData w else spread_data d)"
  "editMode (snapshot_callback l (Some d) w) = editMode w"
  by (simp_all add: snapshot_callback_def Let_def)

text \<open>
  C6. The callback's \<^verbatim>\<open>editMode\<close> is the one of the search that registered it, not the
  one of the moment the snapshot arrives. A record is found with edit mode off, the doctor
  opens the form and types a name, the record changes remotely: the snapshot replaces the
  draft, typed name included, although edit mode is on. And the other way round: a search
  made with the form open registers a callback that never mirrors; the form closed, a
  remote change replaces the held record and leaves the draft as it was.
\<close>

theorem snapshot_overwrites_draft_while_editing:
  "map_option updateData
     (run [Search, QueryDone True, Snapshot 0, Toggle, InputChange ''name'' ''B''] ex_init) =
     Some (AList.update ''name'' ''B'' (spread_data ex_data)) \<and>
   map_option editMode
     (run [Search, QueryDone True, Snapshot 0, Toggle, InputChange ''name'' ''B'',
           Remote ex_docs', Snapshot 0] ex_init) = Some True \<and>
   map_option updateData
     (run [Search, QueryDone True, Snapshot 0, Toggle, InputChange ''name'' ''B'',
           Remote ex_docs', Snapshot 0] ex_init) =
     Some (spread_data (ex_data\<lparr>disease := ''cold''\<rparr>)) \<and>
   map_option editMode
     (run [Search, QueryDone True, Snapshot 0, Toggle, Search, QueryDone True, Toggle,
           Remote ex_docs', Snapshot 1] ex_init) = Some False \<and>
   map_option patient
     (run [Search, QueryDone True, Snapshot 0, Toggle, Search, QueryDone True, Toggle,
           Remote ex_docs', Snapshot 1] ex_init) =
     Some (Some \<lparr>id' = ''P123'', data = ex_data\<lparr>disease := ''cold''\<rparr>\<rparr>) \<and>
   map_option updateData
     (run [Search, QueryDone True, Snapshot 0, Toggle, Search, QueryDone True, Toggle,
           Remote ex_docs', Snapshot 1] ex_init) =
     Some (spread_patient \<lparr>id' = ''P123'', data = ex_data\<rparr>)"
  by (simp add: ex_defs run_defs)

text \<open>
  C7. The edit button is rendered only while a record is held, the record of the last
  snapshot. Pressed with edit mode on, it turns edit mode off and sets the draft to that
  record, property by property: the id and the eight fields of the document, each with the
  value the record has, whatever the draft was. Nothing else of the state changes.
\<close>

theorem toggleEditMode_off:
  assumes "fire Toggle w = Some w'" and "editMode w"
  shows "\<not> editMode w' \<and> patient w' = patient w \<and>
         (\<exists>p. patient w = Some p \<and>
              updateData w' =
                [(''id'', id' p), (''name'', name (data p)), (''age'', age (data p)),
                 (''bloodPressure'', bloodPressure (data p)), (''disease'', disease (data p)),
                 (''prescription'', prescription (data p)),
                 (''createdAt'', createdAt (data p)), (''doctorId'', doctorId (data p)),
                 (''lastVisitDate'', lastVisitDate (data p))] \<and>
              w' = toggleEditMode (render w) w \<and>
              w' = w\<lparr>editMode := False, updateData := updateData w'\<rparr>)"
proof (cases "patient w")
  case None
  with assms(1) show ?thesis by simp
next
  case (Some p)
  with assms have "w' = toggleEditMode (render w) w" by simp
  with Some assms(2) show ?thesis
    by (simp add: toggleEditMode_def render_def spread_patient_def spread_data_def)
qed

theorem toggleEditMode_off_witness:
  "editMode ex_editing \<and> patient ex_editing = Some \<lparr>id' = ''P123'', data = ex_data\<rparr> \<and>
   updateData ex_editing =
     [(''name'', ''B''), (''age'', ''41''), (''bloodPressure'', ''120/80''),
      (''disease'', ''flu''), (''prescription'', ''rest''),
      (''createdAt'', ''2024-01-01T00:00:00.000Z''), (''doctorId'', ''D1''),
      (''lastVisitDate'', ''never'')] \<and>
   fire Toggle ex_editing = Some (toggleEditMode (render ex_editing) ex_editing) \<and>
   \<not> editMode (toggleEditMode (render ex_editing) ex_editing) \<and>
   updateData (toggleEditMode (render ex_editing) ex_editing) =
     [(''id'', ''P123''), (''name'', ''A''), (''age'', ''41''), (''bloodPressure'', ''120/80''),
      (''disease'', ''flu''), (''prescription'', ''rest''),
      (''createdAt'', ''2024-01-01T00:00:00.000Z''), (''doctorId'', ''D1''),
      (''lastVisitDate'', ''2024-01-01T00:00:00.000Z'')]"
  using toggleEditMode_off
    [of ex_editing "toggleEditMode (render ex_editing) ex_editing"]
  by (simp add: ex_defs run_defs)

text \<open>
  C8. With a record resolved, \<^verbatim>\<open>handleUpdatePatient\<close> ends in one of two ways. The
  write is rejected: the fixed update-failed notification and a console line are added to
  the log and nothing else changes, so the edit-mode flag, the record, the draft and the
  collection are what they were. The write is taken: the success notification is shown,
  the collection holds the write, and edit mode is off.
\<close>

theorem handleUpdatePatient_outcome:
  assumes "c_patient c = Some p"
    and "written = AList.update ''lastVisitDate'' now (c_updateData c)"
    and "w' = handleUpdatePatient c ok now w"
  shows "(case updateDoc ok (store w) (id' p) written of
            None \<Rightarrow>
              w' = w\<lparr>log := log w @ [UpdateDoc (id' p) written, ToastE update_failed_toast,
                                     ConsoleError ''Error updating patient:'']\<rparr> \<and>
              editMode w' = editMode w \<and> patient w' = patient w \<and>
              updateData w' = updateData w \<and> store w' = store w
          | Some docs \<Rightarrow>
              w' = w\<lparr>log := log w @ [UpdateDoc (id' p) written, ToastE update_ok_toast],
                     store := docs, editMode := False\<rparr> \<and>
              \<not> editMode w')"
  using assms
  by (auto simp: handleUpdatePatient_def Let_def emit_def toast_def 
      split: option.splits)

theorem handleUpdatePatient_outcome_witness:
  "c_patient (render ex_editing) = Some \<lparr>id' = ''P123'', data = ex_data\<rparr> \<and>
   editMode ex_editing \<and>
   updateDoc False (store ex_editing) ''P123''
     (AList.update ''lastVisitDate'' ex_now (c_updateData (render ex_editing))) = None \<and>
   editMode (handleUpdatePatient (render ex_editing) False ex_now ex_editing) \<and>
   updateData (handleUpdatePatient (render ex_editing) False ex_now ex_editing) =
     updateData ex_editing \<and>
   patient (handleUpdatePatient (render ex_editing) False ex_now ex_editing) =
     patient ex_editing \<and>
   \<not> editMode (handleUpdatePatient (render ex_editing) True ex_now ex_editing)"
  using handleUpdatePatient_outcome
    [of "render ex_editing" "\<lparr>id' = ''P123'', data = ex_data\<rparr>" _ ex_now _ False ex_editing,
     OF _ refl refl]
    handleUpdatePatient_outcome
    [of "render ex_editing" "\<lparr>id' = ''P123'', data = ex_data\<rparr>" _ ex_now _ True ex_editing,
     OF _ refl refl]
  by (simp add: ex_defs run_defs)

text \<open>
  C9. The view shows \<open>P123\<close> through listener \<open>0\<close>, is left, and is opened again at
  the address of \<open>P999\<close>, which is not in the collection. The search ends as not found:
  the notification is shown and no record is held, but the second mount holds no
  unsubscribe function, nothing is released, and listener \<open>0\<close> is still live.
\<close>

theorem remount_not_found_keeps_listener:
  "map_option listeners
     (run [Search, QueryDone True, Snapshot 0, Remount ''P999''] ex_init) =
     Some [(0, \<lparr>foundDocId = ''P123'', l_editMode = False, l_mount = 0\<rparr>)] \<and>
   map_option listeners
     (run [Search, QueryDone True, Snapshot 0, Remount ''P999'', Search, QueryDone True]
        ex_init) =
     Some [(0, \<lparr>foundDocId = ''P123'', l_editMode = False, l_mount = 0\<rparr>)] \<and>
   map_option patient
     (run [Search, QueryDone True, Snapshot 0, Remount ''P999'', Search, QueryDone True]
        ex_init) = Some None \<and>
   map_option log
     (run [Search, QueryDone True, Snapshot 0, Remount ''P999'', Search, QueryDone True]
        ex_init) =
     Some [GetDocs ''D1'' ''P123'', OnSnapshot 0 ''P123'',
           GetDocs ''D1'' ''P999'', ToastE not_found_toast]"
  by (simp add: ex_defs run_defs)

text \<open>
  C10. A call of \<^verbatim>\<open>handleUpdatePatient\<close> whose render has no record
  (\<^verbatim>\<open>patient\<close> is null) returns at once: the world after the call is the world before
  it, so nothing is written to the store, no notification is shown, and the edit-mode flag,
  the record and the draft are what they were.
\<close>

theorem handleUpdatePatient_no_record:
  assumes "c_patient c = None"
  shows "handleUpdatePatient c ok now w = w"
  using assms by (simp add: handleUpdatePatient_def)

theorem handleUpdatePatient_no_record_witness:
  "c_patient (render ex_init) = None \<and>
   handleUpdatePatient (render ex_init) True ex_now ex_init = ex_init"
  using handleUpdatePatient_no_record [of "render ex_init" True ex_now ex_init]
  by (simp add: ex_defs)

end
